theory Spec2Isabelle
  imports Main
begin

section \<open>Data model\<close>

subsection \<open>Errors\<close>

text \<open>
  Go errors. \<open>ErrNoCookie\<close> is the sentinel of net/http that \<open>logout\<close> compares
  against; every other error is an \<open>errors.New\<close> value, of which only the message is
  ever read (\<open>err.Error()\<close>).
\<close>

datatype error = ErrNoCookie | New string

fun Error :: "error \<Rightarrow> string" where
  "Error ErrNoCookie = ''http: named cookie not present''"
| "Error (New msg) = msg"

definition errNoUser :: error where
  "errNoUser = New ''no user information stored in context''"

definition errNoLogin :: error where
  "errNoLogin = New ''no login information found''"

text \<open>A run-time panic of the Go program: the handler does not return.\<close>

datatype panic = NilPointerDereference

subsection \<open>Identities, cookies, contexts\<close>

text \<open>
  Modelled from the spec: the declaration of \<open>nflpickem.User\<close> is not among the sources.
  Section 3 gives it a first name, a login name (the email) and further profile fields;
  the handlers read \<open>FirstName\<close> and \<open>Email\<close> only.
\<close>

record User =
  FirstName :: string
  Email :: string
  Profile :: "(string \<times> string) list"

text \<open>The zero value \<open>nflpickem.User{}\<close>.\<close>

definition zero_User :: User where
  "zero_User = \<lparr>FirstName = [], Email = [], Profile = []\<rparr>"

text \<open>
  The fields of \<open>http.Cookie\<close> that this program sets or reads. \<open>MaxAge = 0\<close> is
  Go's "no Max-Age attribute"; a negative \<open>MaxAge\<close> tells the client to delete the cookie.
\<close>

record Cookie =
  Name :: string
  Value :: string
  MaxAge :: int
  Secure :: bool
  HttpOnly :: bool

text \<open>The anonymous struct that \<open>loginState\<close> answers with.\<close>

record login_state =
  state_Name :: string
  state_Username :: string

text \<open>
  \<open>context.Context\<close>: a chain of key/value pairs, the innermost first. Keys and values are
  of interface type in Go; a key is a string or something else, a value is a \<open>User\<close> or
  something else.
\<close>

datatype key = StrKey string | OtherKey nat

datatype any = UserValue User | OtherValue string

datatype Context = Background | WithValue Context key any

fun ctx_Value :: "Context \<Rightarrow> key \<Rightarrow> any option" where
  "ctx_Value Background k = None"
| "ctx_Value (WithValue parent k' v) k = (if k = k' then Some v else ctx_Value parent k)"

subsection \<open>Requests\<close>

text \<open>
  An \<open>http.Request\<close> as the handlers see it: the cookies of its Cookie header in order,
  what \<open>r.BasicAuth()\<close> returns (\<open>None\<close> when \<open>ok\<close> is false), and its context.
\<close>

record Request =
  cookies :: "(string \<times> string) list"
  basic_auth :: "(string \<times> string) option"
  req_ctx :: Context

definition BasicAuth :: "Request \<Rightarrow> (string \<times> string) option" where
  "BasicAuth r = basic_auth r"

definition WithContext :: "Request \<Rightarrow> Context \<Rightarrow> Request" where
  "WithContext r ctx = r\<lparr>req_ctx := ctx\<rparr>"

text \<open>
  \<open>r.Cookie(name)\<close>: the first cookie of that name, or the nil pointer together with
  \<open>ErrNoCookie\<close>. The result is the Go pair (pointer, error).
\<close>

definition Request_Cookie :: "Request \<Rightarrow> string \<Rightarrow> Cookie option \<times> error option" where
  "Request_Cookie r name =
     (if name = [] then (None, Some ErrNoCookie)
      else case find (\<lambda>(n, v). n = name) (cookies r) of
             None \<Rightarrow> (None, Some ErrNoCookie)
           | Some (n, v) \<Rightarrow>
               (Some \<lparr>Name = n, Value = v, MaxAge = 0, Secure = False, HttpOnly = False\<rparr>, None))"

subsection \<open>Responses\<close>

definition StatusOK :: nat where "StatusOK = 200"
definition StatusBadRequest :: nat where "StatusBadRequest = 400"
definition StatusUnauthorized :: nat where "StatusUnauthorized = 401"
definition StatusInternalServerError :: nat where "StatusInternalServerError = 500"

text \<open>
  What a handler can encode into the body: the login state, or a week of the season. The
  type of a week is declared outside the sources and stays a parameter.
\<close>

datatype 'wk json = StateValue login_state | WeekValue 'wk

datatype 'wk body_part =
    ErrorEnvelope string
  | SuccessEnvelope string
  | JSONValue "'wk json"

text \<open>
  An \<open>http.ResponseWriter\<close>: the Set-Cookie lines of its header, the status code once the
  header is written, and what has been written to the body, in order.
\<close>

record 'wk ResponseWriter =
  set_cookies :: "Cookie list"
  status :: "nat option"
  body :: "'wk body_part list"

definition new_ResponseWriter :: "'wk ResponseWriter" where
  "new_ResponseWriter = \<lparr>set_cookies = [], status = None, body = []\<rparr>"

text \<open>
  net/http: the first \<open>WriteHeader\<close> fixes the status and later ones are ignored; a
  \<open>Write\<close> before any \<open>WriteHeader\<close> sends status 200.
\<close>

definition WriteHeader :: "'wk ResponseWriter \<Rightarrow> nat \<Rightarrow> 'wk ResponseWriter" where
  "WriteHeader w code = (if status w = None then w\<lparr>status := Some code\<rparr> else w)"

definition Write :: "'wk ResponseWriter \<Rightarrow> 'wk body_part \<Rightarrow> 'wk ResponseWriter" where
  "Write w part = (let w' = WriteHeader w StatusOK in w'\<lparr>body := body w' @ [part]\<rparr>)"

text \<open>
  net/http: a cookie name is valid when it is a non-empty token; \<open>http.SetCookie\<close> adds
  nothing to the header for a cookie whose name is not.
\<close>

definition isTokenChar :: "char \<Rightarrow> bool" where
  "isTokenChar c \<longleftrightarrow>
     c \<in> set (''abcdefghijklmnopqrstuvwxyzABCDEFGHIJKLMNOPQRSTUVWXYZ0123456789''
              @ ''!#$%&*+-.^_|~'' @ [CHR 0x27, CHR 0x60])"

definition isCookieNameValid :: "string \<Rightarrow> bool" where
  "isCookieNameValid raw \<longleftrightarrow> raw \<noteq> [] \<and> list_all isTokenChar raw"

definition SetCookie :: "'wk ResponseWriter \<Rightarrow> Cookie \<Rightarrow> 'wk ResponseWriter" where
  "SetCookie w cookie =
     (if isCookieNameValid (Name cookie)
      then w\<lparr>set_cookies := set_cookies w @ [cookie]\<rparr> else w)"

text \<open>
  Modelled from the spec: \<open>WriteJSONError\<close>, \<open>WriteJSONSuccess\<close> and \<open>WriteJSON\<close> are
  not among the sources. Section 6 has the first answer with the given HTTP status code
  and a JSON error envelope carrying the message, the second with a JSON success envelope
  carrying the message, and the third with the JSON encoding of a value.
\<close>

definition WriteJSONError :: "'wk ResponseWriter \<Rightarrow> nat \<Rightarrow> string \<Rightarrow> 'wk ResponseWriter" where
  "WriteJSONError w code msg = Write (WriteHeader w code) (ErrorEnvelope msg)"

definition WriteJSONSuccess :: "'wk ResponseWriter \<Rightarrow> string \<Rightarrow> 'wk ResponseWriter" where
  "WriteJSONSuccess w msg = Write w (SuccessEnvelope msg)"

definition WriteJSON :: "'wk ResponseWriter \<Rightarrow> 'wk json \<Rightarrow> 'wk ResponseWriter" where
  "WriteJSON w v = Write w (JSONValue v)"

section \<open>The server\<close>

text \<open>
  The collaborators a \<open>Server\<close> holds: the securecookie codec \<open>s.sc\<close> (its keys inside)
  and the credential verifier of the datastore \<open>s.db\<close>. They are external and stay
  parameters; each returns an error or a result.
\<close>

record Server =
  sc_Encode :: "string \<Rightarrow> User \<Rightarrow> error + string"
  sc_Decode :: "string \<Rightarrow> string \<Rightarrow> error + User"
  db_CheckCredentials :: "string \<Rightarrow> string \<Rightarrow> error + User"

text \<open>
  What a handler changes while it serves one request: the response writer \<open>w\<close>, and the
  calls made to the credential verifier, logged in order.
\<close>

record 'wk HandlerState =
  resp :: "'wk ResponseWriter"
  verifier_calls :: "(string \<times> string) list"

definition new_HandlerState :: "'wk HandlerState" where
  "new_HandlerState = \<lparr>resp = new_ResponseWriter, verifier_calls = []\<rparr>"

definition CheckCredentials ::
  "Server \<Rightarrow> string \<Rightarrow> string \<Rightarrow> 'wk HandlerState \<Rightarrow> (error + User) \<times> 'wk HandlerState" where
  "CheckCredentials s u p st =
     (db_CheckCredentials s u p, st\<lparr>verifier_calls := verifier_calls st @ [(u, p)]\<rparr>)"

definition newEncodedCookie :: "Server \<Rightarrow> string \<Rightarrow> User \<Rightarrow> error + Cookie" where
  "newEncodedCookie s name val =
     (case sc_Encode s name val of
        Inl err \<Rightarrow> Inl err
      | Inr encoded \<Rightarrow>
          Inr \<lparr>Name = name, Value = encoded, MaxAge = 0, Secure = False, HttpOnly = True\<rparr>)"

text \<open>\<open>login\<close>; the calls to \<open>log.Println\<close> write to the process log only and are left out.\<close>

definition login :: "Server \<Rightarrow> 'wk HandlerState \<Rightarrow> Request \<Rightarrow> 'wk HandlerState" where
  "login s st r =
     (case BasicAuth r of
        None \<Rightarrow> st\<lparr>resp := WriteJSONError (resp st) StatusBadRequest ''missing credentials''\<rparr>
      | Some (u, p) \<Rightarrow>
          (case CheckCredentials s u p st of
             (Inl err, st1) \<Rightarrow>
               st1\<lparr>resp := WriteJSONError (resp st1) StatusInternalServerError (Error err)\<rparr>
           | (Inr user, st1) \<Rightarrow>
               (case newEncodedCookie s ''nflpickem'' user of
                  Inl err \<Rightarrow>
                    st1\<lparr>resp := WriteJSONError (resp st1) StatusInternalServerError (Error err)\<rparr>
                | Inr cookie \<Rightarrow>
                    st1\<lparr>resp := WriteJSONSuccess (SetCookie (resp st1) cookie)
                                   ''successfully logged in''\<rparr>)))"

text \<open>
  \<open>logout\<close>. After the error check the source writes \<open>cookie.MaxAge\<close> through the
  pointer \<open>r.Cookie\<close> returned, which is nil when the request has no such cookie.
\<close>

definition logout :: "Server \<Rightarrow> 'wk HandlerState \<Rightarrow> Request \<Rightarrow> panic + 'wk HandlerState" where
  "logout s st r =
     (case Request_Cookie r ''nflpickem'' of
        (cookie, err) \<Rightarrow>
          if err \<noteq> None \<and> err \<noteq> Some ErrNoCookie
          then Inr (st\<lparr>resp := WriteJSONError (resp st) StatusInternalServerError
                                   (Error (the err))\<rparr>)
          else (case cookie of
                  None \<Rightarrow> Inl NilPointerDereference
                | Some c \<Rightarrow>
                    Inr (st\<lparr>resp := WriteJSONSuccess (SetCookie (resp st) (c\<lparr>MaxAge := - 1\<rparr>))
                                         ''succesful logout''\<rparr>)))"

text \<open>
  \<open>verifyLogin\<close> returns the Go pair (user, error) and the state it leaves. The source
  tests \<open>err == nil\<close> only before it reads \<open>cookie.Value\<close>; \<open>r.Cookie\<close> returns a
  cookie exactly when it returns no error, so the two patterns below cover its results.
  The same holds of \<open>loginState\<close>.
\<close>

definition verifyLogin ::
  "Server \<Rightarrow> 'wk HandlerState \<Rightarrow> Request \<Rightarrow> (User \<times> error option) \<times> 'wk HandlerState" where
  "verifyLogin s st r =
     (let fallback =
        (case BasicAuth r of
           None \<Rightarrow> ((zero_User, Some errNoLogin), st)
         | Some (u, p) \<Rightarrow>
             (case CheckCredentials s u p st of
                (Inl err, st1) \<Rightarrow> ((zero_User, Some err), st1)
              | (Inr user, st1) \<Rightarrow>
                  (case newEncodedCookie s ''nflpickem'' user of
                     Inl err \<Rightarrow> ((zero_User, Some err), st1)
                   | Inr cookie \<Rightarrow> ((user, None), st1\<lparr>resp := SetCookie (resp st1) cookie\<rparr>))))
      in case Request_Cookie r ''nflpickem'' of
           (Some cookie, None) \<Rightarrow>
             (case sc_Decode s ''nflpickem'' (Value cookie) of
                Inr user \<Rightarrow> ((user, None), st)
              | Inl err \<Rightarrow> fallback)
         | _ \<Rightarrow> fallback)"

text \<open>\<open>requireLogin\<close> wraps the handler \<open>next\<close>.\<close>

definition requireLogin ::
  "Server \<Rightarrow> ('wk HandlerState \<Rightarrow> Request \<Rightarrow> 'wk HandlerState) \<Rightarrow>
   'wk HandlerState \<Rightarrow> Request \<Rightarrow> 'wk HandlerState" where
  "requireLogin s next st r =
     (case verifyLogin s st r of
        ((user, Some err), st1) \<Rightarrow>
          (let cookie = \<lparr>Name = ''nflpickem'', Value = [], MaxAge = - 1,
                         Secure = False, HttpOnly = False\<rparr>
           in st1\<lparr>resp := WriteJSONError (SetCookie (resp st1) cookie)
                              StatusUnauthorized ''login required''\<rparr>)
      | ((user, None), st1) \<Rightarrow>
          (let ctx = WithValue (req_ctx r) (StrKey ''user'') (UserValue user)
           in next st1 (WithContext r ctx)))"

definition loginState :: "Server \<Rightarrow> 'wk HandlerState \<Rightarrow> Request \<Rightarrow> 'wk HandlerState" where
  "loginState s st r =
     (case Request_Cookie r ''nflpickem'' of
        (Some cookie, None) \<Rightarrow>
          (case sc_Decode s ''nflpickem'' (Value cookie) of
             Inl err \<Rightarrow>
               st\<lparr>resp := WriteJSONError (resp st) StatusUnauthorized ''login required''\<rparr>
           | Inr user \<Rightarrow>
               (let state = \<lparr>state_Name = FirstName user, state_Username = Email user\<rparr>
                in st\<lparr>resp := WriteJSON (resp st) (StateValue state)\<rparr>))
      | _ \<Rightarrow> st\<lparr>resp := WriteJSONError (resp st) StatusUnauthorized ''login required''\<rparr>)"

text \<open>
  \<open>retrieveUser\<close>: the type assertion \<open>ctx.Value("user").(nflpickem.User)\<close> holds only of
  a stored \<open>User\<close>. The result is the Go pair (user, error).
\<close>

definition retrieveUser :: "Context \<Rightarrow> User \<times> error option" where
  "retrieveUser ctx =
     (case ctx_Value ctx (StrKey ''user'') of
        Some (UserValue u) \<Rightarrow> (u, None)
      | _ \<Rightarrow> (zero_User, Some errNoUser))"

text \<open>
  \<open>currentWeek\<close>: \<open>db.CurrentWeek\<close> is the datastore's and stays a parameter that
  returns the Go pair (week, error); \<open>now\<close> stands for \<open>time.Now()\<close>. The error branch of
  the source has no \<open>return\<close>.
\<close>

definition currentWeek ::
  "(int \<Rightarrow> 'wk \<times> error option) \<Rightarrow> int \<Rightarrow> 'wk ResponseWriter \<Rightarrow> 'wk ResponseWriter" where
  "currentWeek db_CurrentWeek now w =
     (case db_CurrentWeek now of
        (week, err) \<Rightarrow>
          (let w1 = (case err of
                       Some e \<Rightarrow> WriteJSONError w StatusInternalServerError (Error e)
                     | None \<Rightarrow> w)
           in WriteJSON w1 (WeekValue week)))"

section \<open>A concrete deployment\<close>

text \<open>
  A small server on which the theorems below are exercised: its verifier knows Alice and
  Bob, its codec seals Alice into one token and finds Bob's long profile too large to seal
  (securecookie bounds the length of an encoded value), and it unseals that one token only.
\<close>

definition alice :: User where
  "alice = \<lparr>FirstName = ''Alice'', Email = ''alice@example.com'', Profile = []\<rparr>"

definition bob :: User where
  "bob = \<lparr>FirstName = ''Bob'', Email = ''bob@example.com'',
           Profile = [(''bio'', replicate 5000 CHR ''x'')]\<rparr>"

definition example_Server :: Server where
  "example_Server =
     \<lparr>sc_Encode = (\<lambda>name u.
        if name = ''nflpickem'' \<and> u = alice then Inr ''sealed-alice''
        else Inl (New ''securecookie: the value is too long'')),
      sc_Decode = (\<lambda>name v.
        if name = ''nflpickem'' \<and> v = ''sealed-alice'' then Inr alice
        else Inl (New ''securecookie: the value is not valid'')),
      db_CheckCredentials = (\<lambda>u p.
        if u = ''alice@example.com'' \<and> p = ''secret'' then Inr alice
        else if u = ''bob@example.com'' \<and> p = ''hunter2'' then Inr bob
        else Inl (New ''invalid credentials''))\<rparr>"

definition example_Request :: "(string \<times> string) list \<Rightarrow> (string \<times> string) option \<Rightarrow> Request" where
  "example_Request cs auth = \<lparr>cookies = cs, basic_auth = auth, req_ctx = Background\<rparr>"

text \<open>A protected handler as \<open>requireLogin\<close> wraps them: it answers with the login name
  of the identity it finds in the request's context.\<close>

definition whoami :: "'wk HandlerState \<Rightarrow> Request \<Rightarrow> 'wk HandlerState" where
  "whoami st r =
     (case retrieveUser (req_ctx r) of
        (u, None) \<Rightarrow> st\<lparr>resp := WriteJSONSuccess (resp st) (Email u)\<rparr>
      | (u, Some err) \<Rightarrow>
          st\<lparr>resp := WriteJSONError (resp st) StatusInternalServerError (Error err)\<rparr>)"

section \<open>Facts about the response writer\<close>

lemma set_cookies_Write [simp]: "set_cookies (Write w part) = set_cookies w"
  by (simp add: Write_def WriteHeader_def Let_def)

lemma body_Write [simp]: "body (Write w part) = body w @ [part]"
  by (simp add: Write_def WriteHeader_def Let_def)

lemma status_Write [simp]:
  "status (Write w part) = Some (case status w of None \<Rightarrow> StatusOK | Some c \<Rightarrow> c)"
  by (simp add: Write_def WriteHeader_def Let_def split: option.splits)

lemma set_cookies_WriteHeader [simp]: "set_cookies (WriteHeader w code) = set_cookies w"
  by (simp add: WriteHeader_def)

lemma body_WriteHeader [simp]: "body (WriteHeader w code) = body w"
  by (simp add: WriteHeader_def)

lemma status_WriteHeader [simp]:
  "status (WriteHeader w code) = Some (case status w of None \<Rightarrow> code | Some c \<Rightarrow> c)"
  by (simp add: WriteHeader_def split: option.splits)

lemma body_SetCookie [simp]: "body (SetCookie w c) = body w"
  by (simp add: SetCookie_def)

lemma status_SetCookie [simp]: "status (SetCookie w c) = status w"
  by (simp add: SetCookie_def)

lemma nflpickem_valid [simp]: "isCookieNameValid ''nflpickem''"
  by (simp add: isCookieNameValid_def isTokenChar_def)

lemma set_cookies_SetCookie:
  "Name c = ''nflpickem'' \<Longrightarrow> set_cookies (SetCookie w c) = set_cookies w @ [c]"
  by (simp add: SetCookie_def)

lemma fresh_HandlerState [simp]:
  "status (resp new_HandlerState) = None"
  "set_cookies (resp new_HandlerState) = []"
  "body (resp new_HandlerState) = []"
  "verifier_calls new_HandlerState = []"
  by (simp_all add: new_HandlerState_def new_ResponseWriter_def)

section \<open>Facts about reading the request\<close>

text \<open>\<open>r.Cookie\<close> returns either the nil pointer with \<open>ErrNoCookie\<close>, or a cookie of the
  name asked for with no error; there is no third outcome.\<close>

lemma Request_Cookie_cases:
  "Request_Cookie r name = (None, Some ErrNoCookie) \<or>
   (\<exists>v. Request_Cookie r name =
      (Some \<lparr>Name = name, Value = v, MaxAge = 0, Secure = False, HttpOnly = False\<rparr>, None))"
  by (auto simp: Request_Cookie_def split: option.splits dest: find_Some_iff[THEN iffD1])

lemma example_Request_simps [simp]:
  "BasicAuth (example_Request cs auth) = auth"
  "cookies (example_Request cs auth) = cs"
  "req_ctx (example_Request cs auth) = Background"
  by (simp_all add: example_Request_def BasicAuth_def)

lemma Request_Cookie_basic_auth [simp]:
  "Request_Cookie (r\<lparr>basic_auth := auth\<rparr>) name = Request_Cookie r name"
  by (simp add: Request_Cookie_def)

section \<open>Facts about the concrete deployment\<close>

lemmas example_defs =
  example_Server_def example_Request_def Request_Cookie_def BasicAuth_def
  alice_def bob_def zero_User_def errNoLogin_def errNoUser_def

lemma example_cookie_sealed:
  "Request_Cookie (example_Request [(''nflpickem'', ''sealed-alice'')] auth) ''nflpickem''
     = (Some \<lparr>Name = ''nflpickem'', Value = ''sealed-alice'', MaxAge = 0,
               Secure = False, HttpOnly = False\<rparr>, None)"
  by (simp add: example_defs)

lemma example_cookie_forged:
  "Request_Cookie (example_Request [(''nflpickem'', ''forged'')] auth) ''nflpickem''
     = (Some \<lparr>Name = ''nflpickem'', Value = ''forged'', MaxAge = 0,
               Secure = False, HttpOnly = False\<rparr>, None)"
  by (simp add: example_defs)

lemma example_cookie_absent:
  "Request_Cookie (example_Request [] auth) ''nflpickem'' = (None, Some ErrNoCookie)"
  by (simp add: example_defs)

lemma example_decode:
  "sc_Decode example_Server ''nflpickem'' ''sealed-alice'' = Inr alice"
  "sc_Decode example_Server ''nflpickem'' ''forged''
     = Inl (New ''securecookie: the value is not valid'')"
  by (simp_all add: example_Server_def)

lemma example_encode:
  "sc_Encode example_Server ''nflpickem'' alice = Inr ''sealed-alice''"
  "sc_Encode example_Server ''nflpickem'' bob = Inl (New ''securecookie: the value is too long'')"
  by (simp_all add: example_Server_def alice_def bob_def)

lemma example_verifier:
  "db_CheckCredentials example_Server ''alice@example.com'' ''secret'' = Inr alice"
  "db_CheckCredentials example_Server ''bob@example.com'' ''hunter2'' = Inr bob"
  "db_CheckCredentials example_Server ''alice@example.com'' ''wrong''
     = Inl (New ''invalid credentials'')"
  by (simp_all add: example_Server_def)

section \<open>Identity resolution\<close>

text \<open>A failing \<open>verifyLogin\<close> has not touched the response and returns the zero identity:
  the sealed cookie is attached only on the path that ends in success.\<close>

lemma verifyLogin_failure:
  assumes "verifyLogin s st r = ((u, Some err), st')"
  shows "resp st' = resp st \<and> u = zero_User"
  using assms
  by (auto simp: verifyLogin_def CheckCredentials_def Let_def
           split: prod.splits option.splits sum.splits)

text \<open>The fast path: a cookie that unseals decides the result, and the state is left as
  it was.\<close>

lemma verifyLogin_cookie:
  assumes "Request_Cookie r ''nflpickem'' = (Some c, None)"
    and "sc_Decode s ''nflpickem'' (Value c) = Inr u"
  shows "verifyLogin s st r = ((u, None), st)"
  using assms by (simp add: verifyLogin_def)

text \<open>The fallback, taken when there is no cookie or the cookie does not unseal.\<close>

lemma verifyLogin_fallback:
  assumes "fst (Request_Cookie r ''nflpickem'') = None
         \<or> (\<exists>c e. Request_Cookie r ''nflpickem'' = (Some c, None)
                  \<and> sc_Decode s ''nflpickem'' (Value c) = Inl e)"
  shows "verifyLogin s st r =
     (case BasicAuth r of
        None \<Rightarrow> ((zero_User, Some errNoLogin), st)
      | Some (u, p) \<Rightarrow>
          (case db_CheckCredentials s u p of
             Inl err \<Rightarrow> ((zero_User, Some err), st\<lparr>verifier_calls := verifier_calls st @ [(u, p)]\<rparr>)
           | Inr user \<Rightarrow>
               (case sc_Encode s ''nflpickem'' user of
                  Inl err \<Rightarrow> ((zero_User, Some err),
                              st\<lparr>verifier_calls := verifier_calls st @ [(u, p)]\<rparr>)
                | Inr tok \<Rightarrow> ((user, None),
                     st\<lparr>verifier_calls := verifier_calls st @ [(u, p)],
                        resp := SetCookie (resp st)
                          \<lparr>Name = ''nflpickem'', Value = tok, MaxAge = 0,
                           Secure = False, HttpOnly = True\<rparr>\<rparr>))))"
  using assms Request_Cookie_cases [of r "''nflpickem''"]
  by (auto simp: verifyLogin_def CheckCredentials_def newEncodedCookie_def Let_def
           split: prod.splits option.splits sum.splits)

section \<open>Logout\<close>

text \<open>With a cookie in the request, whatever its value, \<open>logout\<close> returns, sends the
  cookie back with \<open>MaxAge = -1\<close> and reports success; it never unseals the cookie and
  never calls the verifier.\<close>

lemma logout_with_cookie:
  assumes "Request_Cookie r ''nflpickem'' = (Some c, None)"
  shows "\<exists>st'. logout s st r = Inr st'
       \<and> verifier_calls st' = verifier_calls st
       \<and> set_cookies (resp st') = set_cookies (resp st) @ [c\<lparr>MaxAge := - 1\<rparr>]
       \<and> body (resp st') = body (resp st) @ [SuccessEnvelope ''succesful logout'']"
  using assms Request_Cookie_cases [of r "''nflpickem''"]
  by (auto simp: logout_def WriteJSONSuccess_def set_cookies_SetCookie)

text \<open>Without the cookie, the write through the nil pointer panics before anything is
  sent.\<close>

lemma logout_without_cookie:
  assumes "fst (Request_Cookie r ''nflpickem'') = None"
  shows "logout s st r = Inl NilPointerDereference"
  using assms Request_Cookie_cases [of r "''nflpickem''"]
  by (auto simp: logout_def)

text \<open>
  C1. The claim is that logout completes normally, sets a \<open>nflpickem\<close> cookie of negative
  MaxAge and reports success whether or not the request carries the cookie. On a request
  without any cookie the handler panics instead: nothing is set and nothing is written.
\<close>

theorem logout_no_cookie_panics:
  "logout example_Server (new_HandlerState :: unit HandlerState) (example_Request [] None)
     = Inl NilPointerDereference"
  by (simp add: logout_def example_cookie_absent)

section \<open>Authentication failures\<close>

text \<open>
  C2, as the code has it. At the access guard every failure of identity resolution (no
  credentials at all, a cookie that does not unseal, Basic Auth credentials the verifier
  rejects) is answered with status 401 and the message "login required", and two requests
  that fail for different reasons get the same response. State inspection answers a
  missing or invalid cookie in the same way. At the login entry point, credentials that
  the verifier rejects are answered with status 500 and the verifier's own error message.
\<close>

theorem auth_failure_response:
  "(\<forall>u e st'. verifyLogin s st r = ((u, Some e), st') \<longrightarrow>
      body (resp (requireLogin s next st r)) = body (resp st) @ [ErrorEnvelope ''login required'']
      \<and> (status (resp st) = None \<longrightarrow> status (resp (requireLogin s next st r)) = Some 401))
   \<and> (\<forall>u e st' s2 r2 next2 u2 e2 st2.
        verifyLogin s st r = ((u, Some e), st') \<and> verifyLogin s2 st r2 = ((u2, Some e2), st2) \<longrightarrow>
        resp (requireLogin s next st r) = resp (requireLogin s2 next2 st r2))
   \<and> (fst (Request_Cookie r ''nflpickem'') = None
        \<or> (\<exists>c e. Request_Cookie r ''nflpickem'' = (Some c, None)
                 \<and> sc_Decode s ''nflpickem'' (Value c) = Inl e) \<longrightarrow>
      body (resp (loginState s st r)) = body (resp st) @ [ErrorEnvelope ''login required'']
      \<and> (status (resp st) = None \<longrightarrow> status (resp (loginState s st r)) = Some 401))
   \<and> (\<forall>u p e. BasicAuth r = Some (u, p) \<and> db_CheckCredentials s u p = Inl e \<longrightarrow>
        body (resp (login s st r)) = body (resp st) @ [ErrorEnvelope (Error e)]
        \<and> (status (resp st) = None \<longrightarrow> status (resp (login s st r)) = Some 500))"
proof (intro conjI allI impI)
  fix u e st'
  assume v: "verifyLogin s st r = ((u, Some e), st')"
  from verifyLogin_failure [OF v]
  show "body (resp (requireLogin s next st r)) = body (resp st) @ [ErrorEnvelope ''login required'']"
    by (simp add: requireLogin_def v WriteJSONError_def Let_def)
  assume "status (resp st) = None"
  with verifyLogin_failure [OF v]
  show "status (resp (requireLogin s next st r)) = Some 401"
    by (simp add: requireLogin_def v WriteJSONError_def StatusUnauthorized_def Let_def)
next
  fix u e st' s2 r2 next2 u2 e2 st2
  assume "verifyLogin s st r = ((u, Some e), st') \<and> verifyLogin s2 st r2 = ((u2, Some e2), st2)"
  then have v1: "verifyLogin s st r = ((u, Some e), st')"
    and v2: "verifyLogin s2 st r2 = ((u2, Some e2), st2)" by simp_all
  from verifyLogin_failure [OF v1] verifyLogin_failure [OF v2]
  show "resp (requireLogin s next st r) = resp (requireLogin s2 next2 st r2)"
    by (simp add: requireLogin_def v1 v2 Let_def)
next
  assume "fst (Request_Cookie r ''nflpickem'') = None
        \<or> (\<exists>c e. Request_Cookie r ''nflpickem'' = (Some c, None)
                 \<and> sc_Decode s ''nflpickem'' (Value c) = Inl e)"
  then have l: "loginState s st r
      = st\<lparr>resp := WriteJSONError (resp st) StatusUnauthorized ''login required''\<rparr>"
    using Request_Cookie_cases [of r "''nflpickem''"]
    by (auto simp: loginState_def)
  show "body (resp (loginState s st r)) = body (resp st) @ [ErrorEnvelope ''login required'']"
    by (simp add: l WriteJSONError_def)
  assume "status (resp st) = None"
  then show "status (resp (loginState s st r)) = Some 401"
    by (simp add: l WriteJSONError_def StatusUnauthorized_def)
next
  fix u p e
  assume "BasicAuth r = Some (u, p) \<and> db_CheckCredentials s u p = Inl e"
  then have l: "login s st r
      = st\<lparr>verifier_calls := verifier_calls st @ [(u, p)],
            resp := WriteJSONError (resp st) StatusInternalServerError (Error e)\<rparr>"
    by (simp add: login_def CheckCredentials_def)
  show "body (resp (login s st r)) = body (resp st) @ [ErrorEnvelope (Error e)]"
    by (simp add: l WriteJSONError_def)
  assume "status (resp st) = None"
  then show "status (resp (login s st r)) = Some 500"
    by (simp add: l WriteJSONError_def StatusInternalServerError_def)
qed

theorem auth_failure_response_witness:
  "verifyLogin example_Server (new_HandlerState :: unit HandlerState)
       (example_Request [(''nflpickem'', ''forged'')] None)
     = ((zero_User, Some errNoLogin), new_HandlerState)
   \<and> verifyLogin example_Server (new_HandlerState :: unit HandlerState)
       (example_Request [] (Some (''alice@example.com'', ''wrong'')))
     = ((zero_User, Some (New ''invalid credentials'')),
        new_HandlerState\<lparr>verifier_calls := [(''alice@example.com'', ''wrong'')]\<rparr>)
   \<and> status (resp (requireLogin example_Server whoami (new_HandlerState :: unit HandlerState)
        (example_Request [(''nflpickem'', ''forged'')] None))) = Some 401
   \<and> body (resp (requireLogin example_Server whoami (new_HandlerState :: unit HandlerState)
        (example_Request [(''nflpickem'', ''forged'')] None)))
       = [ErrorEnvelope ''login required'']
   \<and> resp (requireLogin example_Server whoami (new_HandlerState :: unit HandlerState)
        (example_Request [] (Some (''alice@example.com'', ''wrong''))))
       = resp (requireLogin example_Server whoami (new_HandlerState :: unit HandlerState)
        (example_Request [(''nflpickem'', ''forged'')] None))
   \<and> status (resp (loginState example_Server (new_HandlerState :: unit HandlerState)
        (example_Request [(''nflpickem'', ''forged'')] None))) = Some 401
   \<and> body (resp (loginState example_Server (new_HandlerState :: unit HandlerState)
        (example_Request [(''nflpickem'', ''forged'')] None)))
       = [ErrorEnvelope ''login required'']
   \<and> status (resp (login example_Server (new_HandlerState :: unit HandlerState)
        (example_Request [] (Some (''alice@example.com'', ''wrong''))))) = Some 500
   \<and> body (resp (login example_Server (new_HandlerState :: unit HandlerState)
        (example_Request [] (Some (''alice@example.com'', ''wrong'')))))
       = [ErrorEnvelope ''invalid credentials'']"
proof -
  let ?st = "new_HandlerState :: unit HandlerState"
  let ?forged = "example_Request [(''nflpickem'', ''forged'')] None"
  let ?wrong = "example_Request [] (Some (''alice@example.com'', ''wrong''))"
  have v1: "verifyLogin example_Server ?st ?forged = ((zero_User, Some errNoLogin), ?st)"
    by (simp add: verifyLogin_def example_cookie_forged example_decode)
  have v2: "verifyLogin example_Server ?st ?wrong
     = ((zero_User, Some (New ''invalid credentials'')),
        ?st\<lparr>verifier_calls := [(''alice@example.com'', ''wrong'')]\<rparr>)"
    by (simp add: verifyLogin_def CheckCredentials_def example_cookie_absent example_verifier)
  note t1 = auth_failure_response [of example_Server ?st ?forged whoami]
  note t2 = auth_failure_response [of example_Server ?st ?wrong whoami]
  from t1 [THEN conjunct1, rule_format, OF v1]
  have a: "body (resp (requireLogin example_Server whoami ?st ?forged))
        = [ErrorEnvelope ''login required'']
      \<and> status (resp (requireLogin example_Server whoami ?st ?forged)) = Some 401"
    by simp
  from t2 [THEN conjunct2, THEN conjunct1, rule_format, OF conjI [OF v2 v1]]
  have b: "resp (requireLogin example_Server whoami ?st ?wrong)
      = resp (requireLogin example_Server whoami ?st ?forged)" .
  have c': "fst (Request_Cookie ?forged ''nflpickem'') = None
      \<or> (\<exists>c e. Request_Cookie ?forged ''nflpickem'' = (Some c, None)
               \<and> sc_Decode example_Server ''nflpickem'' (Value c) = Inl e)"
    by (simp add: example_cookie_forged example_decode)
  from t1 [THEN conjunct2, THEN conjunct2, THEN conjunct1, rule_format, OF c']
  have d: "body (resp (loginState example_Server ?st ?forged))
        = [ErrorEnvelope ''login required'']
      \<and> status (resp (loginState example_Server ?st ?forged)) = Some 401"
    by simp
  have w: "BasicAuth ?wrong = Some (''alice@example.com'', ''wrong'')
      \<and> db_CheckCredentials example_Server ''alice@example.com'' ''wrong''
          = Inl (New ''invalid credentials'')"
    by (simp add: example_verifier)
  from t2 [THEN conjunct2, THEN conjunct2, THEN conjunct2, rule_format, OF w]
  have e: "body (resp (login example_Server ?st ?wrong))
        = [ErrorEnvelope ''invalid credentials'']
      \<and> status (resp (login example_Server ?st ?wrong)) = Some 500"
    by simp
  from a b d e v1 v2 show ?thesis by simp
qed

text \<open>C2 as stated fails at the login entry point: wrong credentials there are answered with
  status 500 and the verifier's message, not with 401 and "login required".\<close>

theorem login_bad_credentials_counterexample:
  "BasicAuth (example_Request [] (Some (''alice@example.com'', ''wrong'')))
     = Some (''alice@example.com'', ''wrong'')
   \<and> db_CheckCredentials example_Server ''alice@example.com'' ''wrong''
       = Inl (New ''invalid credentials'')
   \<and> status (resp (login example_Server (new_HandlerState :: unit HandlerState)
        (example_Request [] (Some (''alice@example.com'', ''wrong''))))) = Some 500
   \<and> status (resp (login example_Server (new_HandlerState :: unit HandlerState)
        (example_Request [] (Some (''alice@example.com'', ''wrong''))))) \<noteq> Some 401
   \<and> body (resp (login example_Server (new_HandlerState :: unit HandlerState)
        (example_Request [] (Some (''alice@example.com'', ''wrong'')))))
       = [ErrorEnvelope ''invalid credentials'']
   \<and> body (resp (login example_Server (new_HandlerState :: unit HandlerState)
        (example_Request [] (Some (''alice@example.com'', ''wrong'')))))
       \<noteq> [ErrorEnvelope ''login required'']"
  by (simp add: login_def CheckCredentials_def example_verifier WriteJSONError_def
                StatusInternalServerError_def)

section \<open>The access guard\<close>

text \<open>
  C3. Whenever \<open>verifyLogin\<close> fails, \<open>requireLogin\<close> adds exactly the clearing cookie
  (\<open>nflpickem\<close>, \<open>MaxAge = -1\<close>) to the response, answers with status 401 and the message
  "login required", and its result does not depend on the wrapped handler: \<open>next\<close> is not
  run.
\<close>

theorem requireLogin_rejects:
  assumes "verifyLogin s st r = ((u, Some err), st')"
  shows "set_cookies (resp (requireLogin s next st r))
           = set_cookies (resp st) @ [\<lparr>Name = ''nflpickem'', Value = [], MaxAge = - 1,
                                        Secure = False, HttpOnly = False\<rparr>]
       \<and> body (resp (requireLogin s next st r)) = body (resp st) @ [ErrorEnvelope ''login required'']
       \<and> (status (resp st) = None \<longrightarrow> status (resp (requireLogin s next st r)) = Some 401)
       \<and> (\<forall>next'. requireLogin s next' st r = requireLogin s next st r)"
  using assms verifyLogin_failure [OF assms]
  by (simp add: requireLogin_def WriteJSONError_def StatusUnauthorized_def
                set_cookies_SetCookie Let_def)

theorem requireLogin_rejects_witness:
  "verifyLogin example_Server (new_HandlerState :: unit HandlerState)
       (example_Request [(''nflpickem'', ''forged'')] None)
     = ((zero_User, Some errNoLogin), new_HandlerState)
   \<and> set_cookies (resp (requireLogin example_Server
         (\<lambda>st r. st\<lparr>resp := WriteJSONSuccess (resp st) ''picks saved''\<rparr>)
         (new_HandlerState :: unit HandlerState)
         (example_Request [(''nflpickem'', ''forged'')] None)))
       = [\<lparr>Name = ''nflpickem'', Value = [], MaxAge = - 1, Secure = False, HttpOnly = False\<rparr>]
   \<and> body (resp (requireLogin example_Server
         (\<lambda>st r. st\<lparr>resp := WriteJSONSuccess (resp st) ''picks saved''\<rparr>)
         (new_HandlerState :: unit HandlerState)
         (example_Request [(''nflpickem'', ''forged'')] None)))
       = [ErrorEnvelope ''login required'']
   \<and> status (resp (requireLogin example_Server
         (\<lambda>st r. st\<lparr>resp := WriteJSONSuccess (resp st) ''picks saved''\<rparr>)
         (new_HandlerState :: unit HandlerState)
         (example_Request [(''nflpickem'', ''forged'')] None))) = Some 401"
proof -
  have h: "verifyLogin example_Server (new_HandlerState :: unit HandlerState)
       (example_Request [(''nflpickem'', ''forged'')] None)
     = ((zero_User, Some errNoLogin), new_HandlerState)"
    by (simp add: verifyLogin_def example_cookie_forged example_decode)
  from requireLogin_rejects [OF h] h show ?thesis by simp
qed

text \<open>
  C4. When the request carries a \<open>nflpickem\<close> cookie that unseals, \<open>verifyLogin\<close> returns
  the identity unsealed from it and leaves the state as it was (no call to the verifier,
  no new Set-Cookie); the wrapped handler then runs on that state, with the identity in the
  context of its request.
\<close>

theorem verifyLogin_cookie_fast_path:
  assumes "Request_Cookie r ''nflpickem'' = (Some c, None)"
    and "sc_Decode s ''nflpickem'' (Value c) = Inr u"
  shows "verifyLogin s st r = ((u, None), st)
       \<and> verifier_calls (snd (verifyLogin s st r)) = verifier_calls st
       \<and> set_cookies (resp (snd (verifyLogin s st r))) = set_cookies (resp st)
       \<and> requireLogin s next st r
           = next st (WithContext r (WithValue (req_ctx r) (StrKey ''user'') (UserValue u)))
       \<and> retrieveUser (req_ctx (WithContext r
             (WithValue (req_ctx r) (StrKey ''user'') (UserValue u)))) = (u, None)"
  by (simp add: verifyLogin_cookie [OF assms] requireLogin_def WithContext_def
                retrieveUser_def Let_def)

theorem verifyLogin_cookie_fast_path_witness:
  "Request_Cookie (example_Request [(''nflpickem'', ''sealed-alice'')]
        (Some (''bob@example.com'', ''hunter2''))) ''nflpickem''
     = (Some \<lparr>Name = ''nflpickem'', Value = ''sealed-alice'', MaxAge = 0,
               Secure = False, HttpOnly = False\<rparr>, None)
   \<and> sc_Decode example_Server ''nflpickem'' ''sealed-alice'' = Inr alice
   \<and> verifyLogin example_Server (new_HandlerState :: unit HandlerState)
        (example_Request [(''nflpickem'', ''sealed-alice'')]
           (Some (''bob@example.com'', ''hunter2'')))
       = ((alice, None), new_HandlerState)
   \<and> verifier_calls (requireLogin example_Server whoami
        (new_HandlerState :: unit HandlerState)
        (example_Request [(''nflpickem'', ''sealed-alice'')]
           (Some (''bob@example.com'', ''hunter2'')))) = []
   \<and> set_cookies (resp (requireLogin example_Server whoami
        (new_HandlerState :: unit HandlerState)
        (example_Request [(''nflpickem'', ''sealed-alice'')]
           (Some (''bob@example.com'', ''hunter2''))))) = []
   \<and> body (resp (requireLogin example_Server whoami
        (new_HandlerState :: unit HandlerState)
        (example_Request [(''nflpickem'', ''sealed-alice'')]
           (Some (''bob@example.com'', ''hunter2'')))))
       = [SuccessEnvelope ''alice@example.com'']"
proof -
  let ?r = "example_Request [(''nflpickem'', ''sealed-alice'')]
               (Some (''bob@example.com'', ''hunter2''))"
  let ?c = "\<lparr>Name = ''nflpickem'', Value = ''sealed-alice'', MaxAge = 0,
              Secure = False, HttpOnly = False\<rparr>"
  let ?st = "new_HandlerState :: unit HandlerState"
  have h1: "Request_Cookie ?r ''nflpickem'' = (Some ?c, None)"
    by (rule example_cookie_sealed)
  have h2: "sc_Decode example_Server ''nflpickem'' (Value ?c) = Inr alice"
    by (simp add: example_decode)
  from verifyLogin_cookie_fast_path [OF h1 h2, of ?st whoami] h1 h2
  show ?thesis by (simp add: whoami_def WriteJSONSuccess_def alice_def)
qed

text \<open>
  C5, as the code has it. For a request with no cookie that unseals: without Basic Auth,
  \<open>verifyLogin\<close> fails with \<open>errNoLogin\<close> and does not call the verifier; with Basic
  Auth it calls the verifier exactly once, and propagates its error when it rejects; when
  the verifier accepts and sealing succeeds, the sealed cookie is attached to the response
  and the identity is returned; when the verifier accepts and sealing fails, the codec's
  error is returned with the zero identity and no cookie is attached.
\<close>

theorem verifyLogin_basic_auth_fallback:
  assumes "fst (Request_Cookie r ''nflpickem'') = None
         \<or> (\<exists>c e. Request_Cookie r ''nflpickem'' = (Some c, None)
                  \<and> sc_Decode s ''nflpickem'' (Value c) = Inl e)"
  shows "(BasicAuth r = None \<longrightarrow> verifyLogin s st r = ((zero_User, Some errNoLogin), st))
       \<and> (\<forall>u p e. BasicAuth r = Some (u, p) \<and> db_CheckCredentials s u p = Inl e \<longrightarrow>
            verifyLogin s st r
              = ((zero_User, Some e), st\<lparr>verifier_calls := verifier_calls st @ [(u, p)]\<rparr>))
       \<and> (\<forall>u p user tok. BasicAuth r = Some (u, p) \<and> db_CheckCredentials s u p = Inr user
              \<and> sc_Encode s ''nflpickem'' user = Inr tok \<longrightarrow>
            fst (verifyLogin s st r) = (user, None)
            \<and> verifier_calls (snd (verifyLogin s st r)) = verifier_calls st @ [(u, p)]
            \<and> set_cookies (resp (snd (verifyLogin s st r)))
                = set_cookies (resp st) @ [\<lparr>Name = ''nflpickem'', Value = tok, MaxAge = 0,
                                             Secure = False, HttpOnly = True\<rparr>])
       \<and> (\<forall>u p user e. BasicAuth r = Some (u, p) \<and> db_CheckCredentials s u p = Inr user
              \<and> sc_Encode s ''nflpickem'' user = Inl e \<longrightarrow>
            verifyLogin s st r
              = ((zero_User, Some e), st\<lparr>verifier_calls := verifier_calls st @ [(u, p)]\<rparr>))"
  by (simp add: verifyLogin_fallback [OF assms] set_cookies_SetCookie)

theorem verifyLogin_basic_auth_fallback_witness:
  "verifyLogin example_Server (new_HandlerState :: unit HandlerState)
       (example_Request [] None)
     = ((zero_User, Some errNoLogin), new_HandlerState)
   \<and> verifyLogin example_Server (new_HandlerState :: unit HandlerState)
       (example_Request [(''nflpickem'', ''forged'')] (Some (''alice@example.com'', ''wrong'')))
     = ((zero_User, Some (New ''invalid credentials'')),
        new_HandlerState\<lparr>verifier_calls := [(''alice@example.com'', ''wrong'')]\<rparr>)
   \<and> fst (verifyLogin example_Server (new_HandlerState :: unit HandlerState)
       (example_Request [] (Some (''alice@example.com'', ''secret'')))) = (alice, None)
   \<and> verifier_calls (snd (verifyLogin example_Server (new_HandlerState :: unit HandlerState)
       (example_Request [] (Some (''alice@example.com'', ''secret'')))))
     = [(''alice@example.com'', ''secret'')]
   \<and> set_cookies (resp (snd (verifyLogin example_Server (new_HandlerState :: unit HandlerState)
       (example_Request [] (Some (''alice@example.com'', ''secret''))))))
     = [\<lparr>Name = ''nflpickem'', Value = ''sealed-alice'', MaxAge = 0,
          Secure = False, HttpOnly = True\<rparr>]
   \<and> verifyLogin example_Server (new_HandlerState :: unit HandlerState)
       (example_Request [] (Some (''bob@example.com'', ''hunter2'')))
     = ((zero_User, Some (New ''securecookie: the value is too long'')),
        new_HandlerState\<lparr>verifier_calls := [(''bob@example.com'', ''hunter2'')]\<rparr>)"
proof -
  let ?st = "new_HandlerState :: unit HandlerState"
  have absent: "\<And>auth. fst (Request_Cookie (example_Request [] auth) ''nflpickem'') = None
      \<or> (\<exists>c e. Request_Cookie (example_Request [] auth) ''nflpickem'' = (Some c, None)
               \<and> sc_Decode example_Server ''nflpickem'' (Value c) = Inl e)"
    by (simp add: example_cookie_absent)
  have forged: "\<And>auth.
      fst (Request_Cookie (example_Request [(''nflpickem'', ''forged'')] auth) ''nflpickem'') = None
      \<or> (\<exists>c e. Request_Cookie (example_Request [(''nflpickem'', ''forged'')] auth) ''nflpickem''
                 = (Some c, None)
               \<and> sc_Decode example_Server ''nflpickem'' (Value c) = Inl e)"
    by (simp add: example_cookie_forged example_decode)
  from verifyLogin_basic_auth_fallback [OF absent, of None ?st]
  have a: "verifyLogin example_Server ?st (example_Request [] None)
      = ((zero_User, Some errNoLogin), ?st)"
    by simp
  from verifyLogin_basic_auth_fallback
    [OF forged, of "Some (''alice@example.com'', ''wrong'')" ?st]
  have b: "verifyLogin example_Server ?st
       (example_Request [(''nflpickem'', ''forged'')] (Some (''alice@example.com'', ''wrong'')))
     = ((zero_User, Some (New ''invalid credentials'')),
        ?st\<lparr>verifier_calls := [(''alice@example.com'', ''wrong'')]\<rparr>)"
    by (simp add: example_verifier)
  from verifyLogin_basic_auth_fallback
    [OF absent, of "Some (''alice@example.com'', ''secret'')" ?st]
  have c: "fst (verifyLogin example_Server ?st
         (example_Request [] (Some (''alice@example.com'', ''secret'')))) = (alice, None)
     \<and> verifier_calls (snd (verifyLogin example_Server ?st
         (example_Request [] (Some (''alice@example.com'', ''secret'')))))
       = [(''alice@example.com'', ''secret'')]
     \<and> set_cookies (resp (snd (verifyLogin example_Server ?st
         (example_Request [] (Some (''alice@example.com'', ''secret''))))))
       = [\<lparr>Name = ''nflpickem'', Value = ''sealed-alice'', MaxAge = 0,
            Secure = False, HttpOnly = True\<rparr>]"
    by (simp add: example_verifier example_encode)
  from verifyLogin_basic_auth_fallback
    [OF absent, of "Some (''bob@example.com'', ''hunter2'')" ?st]
  have d: "verifyLogin example_Server ?st
       (example_Request [] (Some (''bob@example.com'', ''hunter2'')))
     = ((zero_User, Some (New ''securecookie: the value is too long'')),
        ?st\<lparr>verifier_calls := [(''bob@example.com'', ''hunter2'')]\<rparr>)"
    by (simp add: example_verifier example_encode)
  from a b c d show ?thesis by simp
qed

text \<open>C5 as stated fails when the codec cannot seal the identity the verifier returned:
  \<open>verifyLogin\<close> then returns an error, and no cookie is attached.\<close>

theorem verifyLogin_seal_failure_counterexample:
  "fst (Request_Cookie (example_Request [] (Some (''bob@example.com'', ''hunter2'')))
          ''nflpickem'') = None
   \<and> BasicAuth (example_Request [] (Some (''bob@example.com'', ''hunter2'')))
       = Some (''bob@example.com'', ''hunter2'')
   \<and> db_CheckCredentials example_Server ''bob@example.com'' ''hunter2'' = Inr bob
   \<and> fst (verifyLogin example_Server (new_HandlerState :: unit HandlerState)
        (example_Request [] (Some (''bob@example.com'', ''hunter2''))))
       = (zero_User, Some (New ''securecookie: the value is too long''))
   \<and> fst (fst (verifyLogin example_Server (new_HandlerState :: unit HandlerState)
        (example_Request [] (Some (''bob@example.com'', ''hunter2''))))) \<noteq> bob
   \<and> set_cookies (resp (snd (verifyLogin example_Server (new_HandlerState :: unit HandlerState)
        (example_Request [] (Some (''bob@example.com'', ''hunter2'')))))) = []"
  by (simp add: verifyLogin_def CheckCredentials_def newEncodedCookie_def
                example_cookie_absent example_verifier example_encode)
     (simp add: bob_def zero_User_def)

section \<open>Login\<close>

text \<open>
  C6. For a login request with Basic Auth credentials: when the verifier accepts them and
  sealing succeeds, the response carries a \<open>nflpickem\<close> cookie with \<open>HttpOnly\<close> set and
  \<open>MaxAge\<close> unset, and the success envelope; when the verifier rejects them, no cookie is
  set and the status is at least 400.
\<close>

theorem login_sets_cookie_or_fails:
  assumes "BasicAuth r = Some (u, p)"
  shows "(\<forall>user tok. db_CheckCredentials s u p = Inr user
              \<and> sc_Encode s ''nflpickem'' user = Inr tok \<longrightarrow>
            set_cookies (resp (login s st r))
              = set_cookies (resp st) @ [\<lparr>Name = ''nflpickem'', Value = tok, MaxAge = 0,
                                           Secure = False, HttpOnly = True\<rparr>]
            \<and> body (resp (login s st r))
                = body (resp st) @ [SuccessEnvelope ''successfully logged in'']
            \<and> (status (resp st) = None \<longrightarrow> status (resp (login s st r)) = Some 200))
       \<and> (\<forall>e. db_CheckCredentials s u p = Inl e \<longrightarrow>
            set_cookies (resp (login s st r)) = set_cookies (resp st)
            \<and> (status (resp st) = None \<longrightarrow>
                 (\<exists>code. status (resp (login s st r)) = Some code \<and> 400 \<le> code)))"
  using assms
  by (simp add: login_def CheckCredentials_def newEncodedCookie_def WriteJSONError_def
                WriteJSONSuccess_def set_cookies_SetCookie StatusInternalServerError_def
                StatusOK_def)

theorem login_sets_cookie_or_fails_witness:
  "BasicAuth (example_Request [] (Some (''alice@example.com'', ''secret'')))
     = Some (''alice@example.com'', ''secret'')
   \<and> db_CheckCredentials example_Server ''alice@example.com'' ''secret'' = Inr alice
   \<and> sc_Encode example_Server ''nflpickem'' alice = Inr ''sealed-alice''
   \<and> set_cookies (resp (login example_Server (new_HandlerState :: unit HandlerState)
        (example_Request [] (Some (''alice@example.com'', ''secret'')))))
       = [\<lparr>Name = ''nflpickem'', Value = ''sealed-alice'', MaxAge = 0,
            Secure = False, HttpOnly = True\<rparr>]
   \<and> body (resp (login example_Server (new_HandlerState :: unit HandlerState)
        (example_Request [] (Some (''alice@example.com'', ''secret'')))))
       = [SuccessEnvelope ''successfully logged in'']
   \<and> status (resp (login example_Server (new_HandlerState :: unit HandlerState)
        (example_Request [] (Some (''alice@example.com'', ''secret''))))) = Some 200
   \<and> db_CheckCredentials example_Server ''alice@example.com'' ''wrong''
       = Inl (New ''invalid credentials'')
   \<and> set_cookies (resp (login example_Server (new_HandlerState :: unit HandlerState)
        (example_Request [] (Some (''alice@example.com'', ''wrong''))))) = []
   \<and> (\<exists>code. status (resp (login example_Server (new_HandlerState :: unit HandlerState)
        (example_Request [] (Some (''alice@example.com'', ''wrong''))))) = Some code
         \<and> 400 \<le> code)"
proof -
  let ?st = "new_HandlerState :: unit HandlerState"
  have h1: "BasicAuth (example_Request [] (Some (''alice@example.com'', ''secret'')))
      = Some (''alice@example.com'', ''secret'')"
    by simp
  have h2: "BasicAuth (example_Request [] (Some (''alice@example.com'', ''wrong'')))
      = Some (''alice@example.com'', ''wrong'')"
    by simp
  from login_sets_cookie_or_fails [OF h1, of example_Server ?st]
  have a: "set_cookies (resp (login example_Server ?st
        (example_Request [] (Some (''alice@example.com'', ''secret'')))))
       = [\<lparr>Name = ''nflpickem'', Value = ''sealed-alice'', MaxAge = 0,
            Secure = False, HttpOnly = True\<rparr>]
     \<and> body (resp (login example_Server ?st
        (example_Request [] (Some (''alice@example.com'', ''secret'')))))
       = [SuccessEnvelope ''successfully logged in'']
     \<and> status (resp (login example_Server ?st
        (example_Request [] (Some (''alice@example.com'', ''secret''))))) = Some 200"
    by (simp add: example_verifier example_encode)
  from login_sets_cookie_or_fails [OF h2, of example_Server ?st]
  have b: "set_cookies (resp (login example_Server ?st
        (example_Request [] (Some (''alice@example.com'', ''wrong''))))) = []
     \<and> (\<exists>code. status (resp (login example_Server ?st
        (example_Request [] (Some (''alice@example.com'', ''wrong''))))) = Some code
         \<and> 400 \<le> code)"
    by (simp add: example_verifier)
  from a b show ?thesis by (simp add: example_verifier example_encode)
qed

text \<open>
  C7. A login request without Basic Auth credentials is answered with status 400 and the
  message "missing credentials"; the credential verifier is not called and no cookie is
  set.
\<close>

theorem login_missing_credentials:
  assumes "BasicAuth r = None"
  shows "verifier_calls (login s st r) = verifier_calls st
       \<and> set_cookies (resp (login s st r)) = set_cookies (resp st)
       \<and> body (resp (login s st r)) = body (resp st) @ [ErrorEnvelope ''missing credentials'']
       \<and> (status (resp st) = None \<longrightarrow> status (resp (login s st r)) = Some 400)"
  using assms by (simp add: login_def WriteJSONError_def StatusBadRequest_def)

theorem login_missing_credentials_witness:
  "BasicAuth (example_Request [] None) = None
   \<and> verifier_calls (login example_Server
         (new_HandlerState :: unit HandlerState) (example_Request [] None)) = []
   \<and> set_cookies (resp (login example_Server
         (new_HandlerState :: unit HandlerState) (example_Request [] None))) = []
   \<and> body (resp (login example_Server
         (new_HandlerState :: unit HandlerState) (example_Request [] None)))
       = [ErrorEnvelope ''missing credentials'']
   \<and> status (resp (login example_Server
         (new_HandlerState :: unit HandlerState) (example_Request [] None))) = Some 400"
  using login_missing_credentials
    [of "example_Request [] None" example_Server "new_HandlerState :: unit HandlerState"]
  by simp

section \<open>State inspection\<close>

text \<open>
  C8. \<open>loginState\<close> answers with the projection (first name, email) of the identity its
  cookie unseals to, and with 401 "login required" when there is no cookie or it does not
  unseal. Either way it makes no call to the verifier and sets no cookie, and the Basic
  Auth credentials of the request make no difference to it.
\<close>

theorem loginState_cookie_only:
  "(\<forall>c user. Request_Cookie r ''nflpickem'' = (Some c, None)
        \<and> sc_Decode s ''nflpickem'' (Value c) = Inr user \<longrightarrow>
      body (resp (loginState s st r))
        = body (resp st) @ [JSONValue (StateValue
            \<lparr>state_Name = FirstName user, state_Username = Email user\<rparr>)]
      \<and> (status (resp st) = None \<longrightarrow> status (resp (loginState s st r)) = Some 200))
   \<and> (fst (Request_Cookie r ''nflpickem'') = None
        \<or> (\<exists>c e. Request_Cookie r ''nflpickem'' = (Some c, None)
                 \<and> sc_Decode s ''nflpickem'' (Value c) = Inl e) \<longrightarrow>
      body (resp (loginState s st r)) = body (resp st) @ [ErrorEnvelope ''login required'']
      \<and> (status (resp st) = None \<longrightarrow> status (resp (loginState s st r)) = Some 401))
   \<and> verifier_calls (loginState s st r) = verifier_calls st
   \<and> set_cookies (resp (loginState s st r)) = set_cookies (resp st)
   \<and> (\<forall>auth. loginState s st (r\<lparr>basic_auth := auth\<rparr>) = loginState s st r)"
  using Request_Cookie_cases [of r "''nflpickem''"]
  by (auto simp: loginState_def WriteJSONError_def WriteJSON_def StatusUnauthorized_def
                 StatusOK_def Let_def
           split: sum.splits)

theorem loginState_cookie_only_witness:
  "body (resp (loginState example_Server (new_HandlerState :: unit HandlerState)
        (example_Request [(''nflpickem'', ''sealed-alice'')]
           (Some (''bob@example.com'', ''hunter2'')))))
     = [JSONValue (StateValue
          \<lparr>state_Name = ''Alice'', state_Username = ''alice@example.com''\<rparr>)]
   \<and> verifier_calls (loginState example_Server (new_HandlerState :: unit HandlerState)
        (example_Request [(''nflpickem'', ''sealed-alice'')]
           (Some (''bob@example.com'', ''hunter2'')))) = []
   \<and> set_cookies (resp (loginState example_Server (new_HandlerState :: unit HandlerState)
        (example_Request [(''nflpickem'', ''sealed-alice'')]
           (Some (''bob@example.com'', ''hunter2''))))) = []
   \<and> body (resp (loginState example_Server (new_HandlerState :: unit HandlerState)
        (example_Request [(''nflpickem'', ''forged'')]
           (Some (''alice@example.com'', ''secret'')))))
     = [ErrorEnvelope ''login required'']
   \<and> status (resp (loginState example_Server (new_HandlerState :: unit HandlerState)
        (example_Request [(''nflpickem'', ''forged'')]
           (Some (''alice@example.com'', ''secret''))))) = Some 401
   \<and> verifier_calls (loginState example_Server (new_HandlerState :: unit HandlerState)
        (example_Request [(''nflpickem'', ''forged'')]
           (Some (''alice@example.com'', ''secret'')))) = []
   \<and> set_cookies (resp (loginState example_Server (new_HandlerState :: unit HandlerState)
        (example_Request [(''nflpickem'', ''forged'')]
           (Some (''alice@example.com'', ''secret''))))) = []
   \<and> body (resp (loginState example_Server (new_HandlerState :: unit HandlerState)
        (example_Request [] (Some (''alice@example.com'', ''secret'')))))
     = [ErrorEnvelope ''login required'']"
proof -
  let ?st = "new_HandlerState :: unit HandlerState"
  from loginState_cookie_only [of "example_Request [(''nflpickem'', ''sealed-alice'')]
           (Some (''bob@example.com'', ''hunter2''))" example_Server ?st]
  have a: "body (resp (loginState example_Server ?st
        (example_Request [(''nflpickem'', ''sealed-alice'')]
           (Some (''bob@example.com'', ''hunter2'')))))
     = [JSONValue (StateValue
          \<lparr>state_Name = ''Alice'', state_Username = ''alice@example.com''\<rparr>)]
   \<and> verifier_calls (loginState example_Server ?st
        (example_Request [(''nflpickem'', ''sealed-alice'')]
           (Some (''bob@example.com'', ''hunter2'')))) = []
   \<and> set_cookies (resp (loginState example_Server ?st
        (example_Request [(''nflpickem'', ''sealed-alice'')]
           (Some (''bob@example.com'', ''hunter2''))))) = []"
    by (simp add: example_cookie_sealed example_decode alice_def)
  from loginState_cookie_only [of "example_Request [(''nflpickem'', ''forged'')]
           (Some (''alice@example.com'', ''secret''))" example_Server ?st]
  have b: "body (resp (loginState example_Server ?st
        (example_Request [(''nflpickem'', ''forged'')]
           (Some (''alice@example.com'', ''secret'')))))
     = [ErrorEnvelope ''login required'']
   \<and> status (resp (loginState example_Server ?st
        (example_Request [(''nflpickem'', ''forged'')]
           (Some (''alice@example.com'', ''secret''))))) = Some 401
   \<and> verifier_calls (loginState example_Server ?st
        (example_Request [(''nflpickem'', ''forged'')]
           (Some (''alice@example.com'', ''secret'')))) = []
   \<and> set_cookies (resp (loginState example_Server ?st
        (example_Request [(''nflpickem'', ''forged'')]
           (Some (''alice@example.com'', ''secret''))))) = []"
    by (simp add: example_cookie_forged example_decode)
  from loginState_cookie_only [of "example_Request []
           (Some (''alice@example.com'', ''secret''))" example_Server ?st]
  have c: "body (resp (loginState example_Server ?st
        (example_Request [] (Some (''alice@example.com'', ''secret'')))))
     = [ErrorEnvelope ''login required'']"
    by (simp add: example_cookie_absent)
  from a b c show ?thesis by simp
qed

section \<open>The identity in the context\<close>

text \<open>
  C9. \<open>retrieveUser\<close> reads back exactly the identity stored under the key "user", whatever
  the context held before; on a context that holds no identity under that key (the empty
  context among them) it returns \<open>errNoUser\<close> and the zero identity; and the request that
  \<open>requireLogin\<close> hands to the wrapped handler holds the identity that \<open>verifyLogin\<close>
  resolved.
\<close>

theorem retrieveUser_roundtrip:
  "retrieveUser (WithValue ctx (StrKey ''user'') (UserValue u)) = (u, None)
   \<and> ((\<forall>u'. ctx_Value ctx (StrKey ''user'') \<noteq> Some (UserValue u')) \<longrightarrow>
        retrieveUser ctx = (zero_User, Some errNoUser))
   \<and> retrieveUser Background = (zero_User, Some errNoUser)
   \<and> (\<forall>st'. verifyLogin s st r = ((u, None), st') \<longrightarrow>
        requireLogin s next st r
          = next st' (WithContext r (WithValue (req_ctx r) (StrKey ''user'') (UserValue u)))
        \<and> retrieveUser (req_ctx (WithContext r
              (WithValue (req_ctx r) (StrKey ''user'') (UserValue u)))) = (u, None))"
  by (auto simp: retrieveUser_def requireLogin_def WithContext_def Let_def
           split: option.splits any.splits)

theorem retrieveUser_roundtrip_witness:
  "retrieveUser (WithValue Background (StrKey ''user'') (UserValue alice)) = (alice, None)
   \<and> retrieveUser (WithValue Background (StrKey ''user'') (OtherValue ''alice''))
       = (zero_User, Some errNoUser)
   \<and> retrieveUser (WithValue Background (OtherKey 0) (UserValue alice))
       = (zero_User, Some errNoUser)
   \<and> verifyLogin example_Server (new_HandlerState :: unit HandlerState)
        (example_Request [(''nflpickem'', ''sealed-alice'')] None)
       = ((alice, None), new_HandlerState)
   \<and> requireLogin example_Server whoami (new_HandlerState :: unit HandlerState)
        (example_Request [(''nflpickem'', ''sealed-alice'')] None)
       = whoami new_HandlerState
           (WithContext (example_Request [(''nflpickem'', ''sealed-alice'')] None)
              (WithValue Background (StrKey ''user'') (UserValue alice)))"
proof -
  let ?st = "new_HandlerState :: unit HandlerState"
  let ?r = "example_Request [(''nflpickem'', ''sealed-alice'')] None"
  have v: "verifyLogin example_Server ?st ?r = ((alice, None), ?st)"
    by (simp add: verifyLogin_def example_cookie_sealed example_decode)
  have n1: "\<forall>u'. ctx_Value (WithValue Background (StrKey ''user'') (OtherValue ''alice''))
              (StrKey ''user'') \<noteq> Some (UserValue u')"
    by simp
  have n2: "\<forall>u'. ctx_Value (WithValue Background (OtherKey 0) (UserValue alice))
              (StrKey ''user'') \<noteq> Some (UserValue u')"
    by simp
  from retrieveUser_roundtrip [of Background alice example_Server ?st ?r whoami] v
  have a: "retrieveUser (WithValue Background (StrKey ''user'') (UserValue alice)) = (alice, None)
    \<and> requireLogin example_Server whoami ?st ?r
       = whoami ?st (WithContext ?r (WithValue Background (StrKey ''user'') (UserValue alice)))"
    by simp
  from retrieveUser_roundtrip
    [of "WithValue Background (StrKey ''user'') (OtherValue ''alice'')"] n1
  have b: "retrieveUser (WithValue Background (StrKey ''user'') (OtherValue ''alice''))
       = (zero_User, Some errNoUser)"
    by blast
  from retrieveUser_roundtrip
    [of "WithValue Background (OtherKey 0) (UserValue alice)"] n2
  have c: "retrieveUser (WithValue Background (OtherKey 0) (UserValue alice))
       = (zero_User, Some errNoUser)"
    by blast
  from a b c v show ?thesis by simp
qed

section \<open>The current week\<close>

text \<open>
  C10. When \<open>db.CurrentWeek\<close> returns an error, \<open>currentWeek\<close> writes the error envelope
  with status 500 and then, into the same response, the week it got alongside the error
  (the zero week, for a datastore that follows the Go convention).
\<close>

theorem currentWeek_error_then_payload:
  assumes "db_CurrentWeek now = (week, Some err)"
  shows "body (currentWeek db_CurrentWeek now w)
           = body w @ [ErrorEnvelope (Error err), JSONValue (WeekValue week)]
       \<and> set_cookies (currentWeek db_CurrentWeek now w) = set_cookies w
       \<and> (status w = None \<longrightarrow> status (currentWeek db_CurrentWeek now w) = Some 500)"
  using assms
  by (simp add: currentWeek_def WriteJSON_def WriteJSONError_def
                StatusInternalServerError_def)

theorem currentWeek_error_then_payload_witness:
  "body (currentWeek (\<lambda>t. ((0::int, 0::int), Some (New ''no current week''))) 0
          new_ResponseWriter)
     = [ErrorEnvelope ''no current week'', JSONValue (WeekValue (0, 0))]
   \<and> status (currentWeek (\<lambda>t. ((0::int, 0::int), Some (New ''no current week''))) 0
          new_ResponseWriter) = Some 500"
  using currentWeek_error_then_payload
    [of "\<lambda>t. ((0::int, 0::int), Some (New ''no current week''))" 0 "(0, 0)"
        "New ''no current week''" new_ResponseWriter]
  by (simp add: new_ResponseWriter_def)

end
